theory Spec2Isabelle
  imports Main
begin

section \<open>JavaScript values\<close>

text \<open>
  The builder of \<^verbatim>\<open>sails-model-builder.js\<close> manipulates plain JavaScript values: the model
  descriptor, its \<^verbatim>\<open>attributes\<close> object and the attribute descriptors are objects that are
  mutated in place and shared by reference, so objects and functions live in a store and
  are referred to by address. Arrays are only ever read by the builder and are kept as
  values. Numbers are restricted to integers.
\<close>

type_synonym addr = nat

datatype val =
    Undefined
  | Null
  | Bool bool
  | Num int
  | Str string
  | Arr "val list"
  | Ref addr

text \<open>
  What a function object is: one of the lifecycle functions the builder installs on the
  model, the \<^verbatim>\<open>defaultsTo\<close> closure of \<^verbatim>\<open>uuidKey\<close>, or a function of the caller.
\<close>

datatype fn = Trampoline string | UuidGenerator | HostFunction nat

datatype kind = Plain | Function fn

record obj =
  kind :: kind
  props :: "(string \<times> val) list"

text \<open>
  \<^verbatim>\<open>TypeError\<close> is what the engine raises on a property access on \<^verbatim>\<open>undefined\<close> or
  \<^verbatim>\<open>null\<close>. \<^verbatim>\<open>Unmodelled\<close> marks the places where the source's behaviour depends on parts of
  the language that are not represented here (string conversion of numbers, arrays and
  objects used as property keys; property access on primitive values and arrays;
  array-like iteration of an object that owns a numeric \<^verbatim>\<open>length\<close>).
\<close>

datatype error = TypeError | Unmodelled

definition andThen :: "error + 'a \<Rightarrow> ('a \<Rightarrow> error + 'b) \<Rightarrow> error + 'b" where
  "andThen m f = (case m of Inl e \<Rightarrow> Inl e | Inr x \<Rightarrow> f x)"

fun truthy :: "val \<Rightarrow> bool" where
  "truthy Undefined = False"
| "truthy Null = False"
| "truthy (Bool b) = b"
| "truthy (Num n) = (n \<noteq> 0)"
| "truthy (Str s) = (s \<noteq> [])"
| "truthy (Arr es) = True"
| "truthy (Ref a) = True"

text \<open>\<^verbatim>\<open>args[i]\<close>: a missing argument reads as \<^verbatim>\<open>undefined\<close>.\<close>

definition arg :: "val list \<Rightarrow> nat \<Rightarrow> val" where
  "arg args i = (if i < length args then args ! i else Undefined)"

section \<open>The lifecycle dispatcher\<close>

text \<open>
  Both drafts install, for each lifecycle name, the same function on the model
  (\<^verbatim>\<open>setUpLifecycleEvents\<close> in \<^verbatim>\<open>sails-model-builder.js\<close>, \<^verbatim>\<open>setupLifecycleEvents\<close> in the
  second draft):

  \<^verbatim>\<open>function (instance, cb) {
    if (!eventManager.any(lifecycleName)) { cb(); return; }
    var orphanCallback = true;
    var adopt = function () { orphanCallback = false; };
    var wrappedCb = _.wrap(cb, function (fx, message) { adopt(); fx(message); });
    eventManager.trigger(lifecycleName, [instance, wrappedCb, adopt]);
    if (orphanCallback) { cb(); }
  }\<close>

  A handler receives \<^verbatim>\<open>(instance, wrappedCb, adopt)\<close>. What it can do to the invocation is
  call \<^verbatim>\<open>adopt()\<close>, call \<^verbatim>\<open>wrappedCb(...)\<close> with some arguments, or do work that touches
  neither; it does so while it runs (\<open>now\<close>) or after it has returned, from an
  asynchronous callback (\<open>later\<close>). Handlers and the continuation are taken to return
  normally.
\<close>

datatype action = Work | Assume | Continue "val list"

record handler =
  now :: "action list"
  later :: "action list"

text \<open>
  One call of a lifecycle function: the closure variable \<^verbatim>\<open>orphanCallback\<close> and the
  observable events so far, in order: a handler was started, or the framework's
  continuation \<^verbatim>\<open>cb\<close> was called with the given argument list.
\<close>

datatype event = Ran handler | Called "val list"

record invocation =
  orphanCallback :: bool
  trace :: "event list"

definition start :: invocation where
  "start = \<lparr>orphanCallback = True, trace = []\<rparr>"

definition cb :: "val list \<Rightarrow> invocation \<Rightarrow> invocation" where
  "cb args s = s\<lparr>trace := trace s @ [Called args]\<rparr>"

definition adopt :: "invocation \<Rightarrow> invocation" where
  "adopt s = s\<lparr>orphanCallback := False\<rparr>"

text \<open>
  \<^verbatim>\<open>_.wrap(cb, wrapper)\<close> is the function that calls \<^verbatim>\<open>wrapper(cb, ...arguments)\<close>. The wrapper
  names one parameter after \<^verbatim>\<open>fx\<close>, so \<^verbatim>\<open>message\<close> is the first argument of the call (or
  \<^verbatim>\<open>undefined\<close>), and \<^verbatim>\<open>fx(message)\<close> passes exactly that one argument on.
\<close>

definition wrappedCb :: "val list \<Rightarrow> invocation \<Rightarrow> invocation" where
  "wrappedCb args s = (let message = arg args 0 in cb [message] (adopt s))"

fun perform :: "action \<Rightarrow> invocation \<Rightarrow> invocation" where
  "perform Work s = s"
| "perform Assume s = adopt s"
| "perform (Continue args) s = wrappedCb args s"

definition runHandler :: "handler \<Rightarrow> invocation \<Rightarrow> invocation" where
  "runHandler h s = fold perform (now h) (s\<lparr>trace := trace s @ [Ran h]\<rparr>)"

text \<open>
  Modelled from the spec: the event manager (the \<^verbatim>\<open>mayordomo\<close> library) is not part of the
  sources. Its state is the list of handlers subscribed to each event name, in
  subscription order; \<open>any\<close> tells whether an event has a subscriber, and \<open>trigger\<close> calls
  every subscribed handler, in subscription order, synchronously, with the given
  arguments.
\<close>

type_synonym eventManager = "string \<Rightarrow> handler list"

definition any :: "eventManager \<Rightarrow> string \<Rightarrow> bool" where
  "any em name = (em name \<noteq> [])"

definition trigger :: "eventManager \<Rightarrow> string \<Rightarrow> invocation \<Rightarrow> invocation" where
  "trigger em name s = fold runHandler (em name) s"

definition trampoline :: "eventManager \<Rightarrow> string \<Rightarrow> invocation" where
  "trampoline em lifecycleName =
     (if \<not> any em lifecycleName then cb [] start
      else
        let s = trigger em lifecycleName start
        in if orphanCallback s then cb [] s else s)"

text \<open>
  What happens after the lifecycle function has returned: the deferred parts of the
  handlers run against the same closure.
\<close>

definition afterwards :: "handler list \<Rightarrow> invocation \<Rightarrow> invocation" where
  "afterwards hs s = fold (\<lambda>h. fold perform (later h)) hs s"

text \<open>How often the framework's continuation has been called.\<close>

fun isCalled :: "event \<Rightarrow> bool" where
  "isCalled (Called args) = True"
| "isCalled (Ran h) = False"

definition calls :: "invocation \<Rightarrow> event list" where
  "calls s = filter isCalled (trace s)"

text \<open>A handler adopts the continuation during the pass when it does anything to it.\<close>

definition adopts :: "handler \<Rightarrow> bool" where
  "adopts h = list_ex (\<lambda>a. a \<noteq> Work) (now h)"

section \<open>Objects in the store\<close>

text \<open>
  The state of one builder: the objects allocated so far, the next free address, and
  the model under construction (\<^verbatim>\<open>modelBuilder.currentModel\<close> in
  \<^verbatim>\<open>sails-model-builder.js\<close>, the closure variable \<^verbatim>\<open>workingModel\<close> in the second draft).
\<close>

record builder =
  objs :: "addr \<Rightarrow> obj"
  fresh :: addr
  currentModel :: val

definition emptyObj :: obj where
  "emptyObj = \<lparr>kind = Plain, props = []\<rparr>"

definition alloc :: "obj \<Rightarrow> builder \<Rightarrow> addr \<times> builder" where
  "alloc ob s = (fresh s, s\<lparr>objs := (objs s)(fresh s := ob), fresh := Suc (fresh s)\<rparr>)"

text \<open>
  Own enumerable properties are kept in insertion order (the engine lists keys that are
  array indices first; two property lists describe the same object when they hold the
  same keys with the same values). Reading a missing property gives \<^verbatim>\<open>undefined\<close>;
  properties inherited from \<^verbatim>\<open>Object.prototype\<close> are not represented. Writing replaces the
  value of an existing property in place and appends a new one.
\<close>

definition lookup :: "(string \<times> val) list \<Rightarrow> string \<Rightarrow> val" where
  "lookup ps k = (case map_of ps k of Some v \<Rightarrow> v | None \<Rightarrow> Undefined)"

fun put :: "string \<Rightarrow> val \<Rightarrow> (string \<times> val) list \<Rightarrow> (string \<times> val) list" where
  "put k v [] = [(k, v)]"
| "put k v (p # ps) = (if fst p = k then (k, v) # ps else p # put k v ps)"

fun getProp :: "builder \<Rightarrow> val \<Rightarrow> string \<Rightarrow> error + val" where
  "getProp s (Ref a) k = Inr (lookup (props (objs s a)) k)"
| "getProp s Undefined k = Inl TypeError"
| "getProp s Null k = Inl TypeError"
| "getProp s v k = Inl Unmodelled"

fun setProp :: "builder \<Rightarrow> val \<Rightarrow> string \<Rightarrow> val \<Rightarrow> error + builder" where
  "setProp s (Ref a) k v =
     Inr (s\<lparr>objs := (objs s)(a := (objs s a)\<lparr>props := put k v (props (objs s a))\<rparr>)\<rparr>)"
| "setProp s Undefined k v = Inl TypeError"
| "setProp s Null k v = Inl TypeError"
| "setProp s t k v = Inl Unmodelled"

text \<open>A value used as a property key is converted to a string.\<close>

fun toKey :: "val \<Rightarrow> error + string" where
  "toKey (Str k) = Inr k"
| "toKey Undefined = Inr ''undefined''"
| "toKey Null = Inr ''null''"
| "toKey (Bool b) = Inr (if b then ''true'' else ''false'')"
| "toKey v = Inl Unmodelled"

text \<open>\<^verbatim>\<open>x || {}\<close>\<close>

definition orEmpty :: "val \<Rightarrow> builder \<Rightarrow> val \<times> builder" where
  "orEmpty v s = (if truthy v then (v, s) else (let (a, s') = alloc emptyObj s in (Ref a, s')))"

section \<open>The library functions the builder calls\<close>

text \<open>
  The \<^verbatim>\<open>lodash\<close> library is not part of the sources either. Its functions are given here as
  the library documents them, for the values of this model.
\<close>

fun isArray :: "val \<Rightarrow> bool" where
  "isArray (Arr es) = True"
| "isArray v = False"

fun isObject :: "val \<Rightarrow> bool" where
  "isObject (Arr es) = True"
| "isObject (Ref a) = True"
| "isObject v = False"

definition isFunction :: "builder \<Rightarrow> val \<Rightarrow> bool" where
  "isFunction s v =
     (case v of Ref a \<Rightarrow> (case kind (objs s a) of Function f \<Rightarrow> True | Plain \<Rightarrow> False)
      | _ \<Rightarrow> False)"

text \<open>\<^verbatim>\<open>_.each(list, callback)\<close> over an array, stopping at the first exception.\<close>

fun each :: "('a \<Rightarrow> builder \<Rightarrow> error + builder) \<Rightarrow> 'a list \<Rightarrow> builder \<Rightarrow> error + builder" where
  "each f [] s = Inr s"
| "each f (x # xs) s = andThen (f x s) (each f xs)"

text \<open>
  \<^verbatim>\<open>_.each(object, callback)\<close> over an object that is not an array takes the object's own
  enumerable keys first and reads each value when its turn comes. An object that owns a
  numeric \<^verbatim>\<open>length\<close> (every function does) is iterated by index instead, which is left out.
\<close>

definition eachKeys :: "builder \<Rightarrow> val \<Rightarrow> error + string list" where
  "eachKeys s v =
     (case v of
        Ref a \<Rightarrow>
          (case kind (objs s a) of
             Function f \<Rightarrow> Inl Unmodelled
           | Plain \<Rightarrow>
               (case lookup (props (objs s a)) ''length'' of
                  Num n \<Rightarrow> Inl Unmodelled
                | _ \<Rightarrow> Inr (map fst (props (objs s a)))))
      | _ \<Rightarrow> Inl Unmodelled)"

text \<open>Array indices as property keys.\<close>

definition digit :: "nat \<Rightarrow> char" where
  "digit n = ''0123456789'' ! (n mod 10)"

fun dec :: "nat \<Rightarrow> string" where
  "dec n = (if n < 10 then [digit n] else dec (n div 10) @ [digit n])"

definition indexed :: "val list \<Rightarrow> (string \<times> val) list" where
  "indexed es = zip (map dec [0..<length es]) es"

text \<open>
  The own enumerable properties that \<^verbatim>\<open>_.extend\<close> and \<^verbatim>\<open>_.keys\<close> find on a value. For an
  object these are its properties, for an array its elements under their indices, and
  \<^verbatim>\<open>undefined\<close>, \<^verbatim>\<open>null\<close>, booleans and numbers have none. What the library finds on a
  primitive string depends on its version, so it is a parameter of the model:
  the 2.x line skips every source that is not an object (\<open>skipsStrings\<close>), the 3.x and
  4.x lines copy the characters of the string under their indices, as \<^verbatim>\<open>Object.assign\<close>
  does (\<open>copiesCharacters\<close>).
\<close>

type_synonym lodash = "string \<Rightarrow> (string \<times> val) list"

definition skipsStrings :: lodash where
  "skipsStrings t = []"

definition copiesCharacters :: lodash where
  "copiesCharacters t = indexed (map (\<lambda>c. Str [c]) t)"

definition ownProps :: "lodash \<Rightarrow> builder \<Rightarrow> val \<Rightarrow> (string \<times> val) list" where
  "ownProps L s v =
     (case v of Ref a \<Rightarrow> props (objs s a) | Arr es \<Rightarrow> indexed es | Str t \<Rightarrow> L t | _ \<Rightarrow> [])"

text \<open>\<^verbatim>\<open>_.extend(target, source)\<close>: assign every own enumerable property of the source.\<close>

definition extend :: "lodash \<Rightarrow> val \<Rightarrow> val \<Rightarrow> builder \<Rightarrow> error + builder" where
  "extend L target source s =
     each (\<lambda>p s'. setProp s' target (fst p) (snd p)) (ownProps L s source) s"

section \<open>The builder of the second draft\<close>

text \<open>
  The functions of the draft whose setter is \<^verbatim>\<open>model(model)\<close> carry the suffix \<open>_b\<close>.
  Every method but the getter ends in \<^verbatim>\<open>return this\<close>: a result \<open>Inr s\<close> stands for the
  builder itself being returned, with the store \<open>s\<close>.
\<close>

definition lifecycles :: "string list" where
  "lifecycles =
     [''beforeValidate'', ''afterValidate'', ''beforeCreate'', ''afterCreate'',
      ''beforeUpdate'', ''afterUpdate'', ''beforeDestroy'', ''afterDestroy'']"

datatype ret = This | Returned val

text \<open>\<^verbatim>\<open>var workingModel = { attributes: {} };\<close>\<close>

definition newBuilder_b :: builder where
  "newBuilder_b =
     (let (a, s1) = alloc emptyObj \<lparr>objs = (\<lambda>_. emptyObj), fresh = 0, currentModel = Undefined\<rparr>;
          (m, s2) = alloc \<lparr>kind = Plain, props = [(''attributes'', Ref a)]\<rparr> s1
      in s2\<lparr>currentModel := Ref m\<rparr>)"

text \<open>
  \<^verbatim>\<open>_.each(lifecycles, function (lifecycleName) { workingModel[lifecycleName] = function (instance, cb) {...}; })\<close>.
  The function stored for \<open>lifecycleName\<close> is the one that \<open>trampoline\<close> describes.
\<close>

definition setupLifecycleEvents :: "builder \<Rightarrow> error + builder" where
  "setupLifecycleEvents s =
     each (\<lambda>lifecycleName s.
             let (f, s1) = alloc \<lparr>kind = Function (Trampoline lifecycleName), props = []\<rparr> s
             in setProp s1 (currentModel s1) lifecycleName (Ref f))
       lifecycles s"

definition model_b :: "val list \<Rightarrow> builder \<Rightarrow> error + ret \<times> builder" where
  "model_b args s =
     (if length args = 0 then Inr (Returned (currentModel s), s)
      else
        let s1 = s\<lparr>currentModel := arg args 0\<rparr> in
        andThen (getProp s1 (currentModel s1) ''attributes'') (\<lambda>attributes.
        andThen (if \<not> truthy attributes
                 then (let (a, s2) = alloc emptyObj s1
                       in setProp s2 (currentModel s2) ''attributes'' (Ref a))
                 else Inr s1) (\<lambda>s3.
        andThen (setupLifecycleEvents s3) (\<lambda>s4. Inr (This, s4)))))"

definition uuidKey_b :: "builder \<Rightarrow> error + builder" where
  "uuidKey_b s =
     andThen (getProp s (currentModel s) ''attributes'') (\<lambda>attributes.
       let (g, s1) = alloc \<lparr>kind = Function UuidGenerator, props = []\<rparr> s;
           (d, s2) = alloc \<lparr>kind = Plain, props =
                        [(''type'', Str ''string''), (''unique'', Bool True),
                         (''primaryKey'', Bool True), (''defaultsTo'', Ref g)]\<rparr> s1
       in setProp s2 attributes ''id'' (Ref d))"

definition intKey_b :: "val list \<Rightarrow> builder \<Rightarrow> error + builder" where
  "intKey_b args s =
     (let autoIncrement = arg args 0 in
      andThen (getProp s (currentModel s) ''attributes'') (\<lambda>attributes.
        let (d, s1) = alloc \<lparr>kind = Plain, props =
                        [(''type'', Str ''integer''), (''unique'', Bool True),
                         (''primaryKey'', Bool True),
                         (''autoIncrement'',
                            if autoIncrement = Undefined then Bool True else autoIncrement)]\<rparr> s
        in setProp s1 attributes ''id'' (Ref d)))"

text \<open>The callback of the first overload of \<^verbatim>\<open>attr\<close>, for one entry of the mapping.\<close>

definition mergeEntry_b :: "lodash \<Rightarrow> val \<Rightarrow> string \<Rightarrow> builder \<Rightarrow> error + builder" where
  "mergeEntry_b L attributes attributeName s =
     andThen (getProp s attributes attributeName) (\<lambda>attribute.
     andThen (getProp s (currentModel s) ''attributes'') (\<lambda>stored.
     andThen (getProp s stored attributeName) (\<lambda>existing.
       let (currentAttribute, s1) = orEmpty existing s in
       andThen (if \<not> isFunction s1 attribute
                then andThen (extend L currentAttribute attribute s1)
                       (\<lambda>s2. Inr (currentAttribute, s2))
                else Inr (attribute, s1)) (\<lambda>(currentAttribute, s2).
       andThen (getProp s2 (currentModel s2) ''attributes'') (\<lambda>stored'.
         setProp s2 stored' attributeName currentAttribute)))))"

text \<open>The body of the second overload.\<close>

definition setProperty_b :: "val \<Rightarrow> val \<Rightarrow> val \<Rightarrow> builder \<Rightarrow> error + builder" where
  "setProperty_b attributeName propertyName v s =
     andThen (getProp s (currentModel s) ''attributes'') (\<lambda>stored.
     andThen (toKey attributeName) (\<lambda>name.
     andThen (getProp s stored name) (\<lambda>existing.
       let (currentAttribute, s1) = orEmpty existing s in
       andThen (toKey propertyName) (\<lambda>key.
       andThen (setProp s1 currentAttribute key v) (\<lambda>s2.
       andThen (getProp s2 (currentModel s2) ''attributes'') (\<lambda>stored'.
         setProp s2 stored' name currentAttribute))))))"

text \<open>The callback of the third overload, for one attribute name.\<close>

definition mergeShared_b :: "lodash \<Rightarrow> val \<Rightarrow> val \<Rightarrow> builder \<Rightarrow> error + builder" where
  "mergeShared_b L sharedProperties attributeName s =
     andThen (getProp s (currentModel s) ''attributes'') (\<lambda>stored.
     andThen (toKey attributeName) (\<lambda>name.
     andThen (getProp s stored name) (\<lambda>existing.
       let (currentAttribute, s1) = orEmpty existing s in
       andThen (extend L currentAttribute sharedProperties s1) (\<lambda>s2.
       andThen (getProp s2 (currentModel s2) ''attributes'') (\<lambda>stored'.
         setProp s2 stored' name currentAttribute)))))"

definition attr_b :: "lodash \<Rightarrow> val list \<Rightarrow> builder \<Rightarrow> error + builder" where
  "attr_b L args s =
     (let attributes = arg args 0; sharedProperties = arg args 1; v = arg args 2 in
      if \<not> isArray attributes \<and> isObject attributes then
        andThen (eachKeys s attributes) (\<lambda>names. each (mergeEntry_b L attributes) names s)
      else if length args = 3 then
        setProperty_b (arg args 0) (arg args 1) v s
      else
        each (mergeShared_b L sharedProperties)
          (case attributes of Arr es \<Rightarrow> es | _ \<Rightarrow> [attributes]) s)"

definition require_b :: "lodash \<Rightarrow> val list \<Rightarrow> builder \<Rightarrow> error + builder" where
  "require_b L args s =
     andThen
       (if length args = 0 then
          andThen (getProp s (currentModel s) ''attributes'') (\<lambda>stored.
            Inr (Arr (map (\<lambda>p. Str (fst p)) (ownProps L s stored))))
        else if isArray (arg args 0) then Inr (arg args 0)
        else Inr (Arr args)) (\<lambda>attributeNames.
       let (r, s1) = alloc \<lparr>kind = Plain, props = [(''required'', Bool True)]\<rparr> s
       in attr_b L [attributeNames, Ref r] s1)"

text \<open>\<^verbatim>\<open>to.exports = workingModel\<close>\<close>

definition export_b :: "val list \<Rightarrow> builder \<Rightarrow> error + builder" where
  "export_b args s = setProp s (arg args 0) ''exports'' (currentModel s)"

section \<open>The builder of sails-model-builder.js\<close>

text \<open>
  The functions of \<^verbatim>\<open>sails-model-builder.js\<close> carry the suffix \<open>_a\<close>, but for \<open>create\<close> and
  \<open>setUpLifecycleEvents\<close>, names that only this draft has. Its builder object has no
  \<^verbatim>\<open>currentModel\<close> until \<^verbatim>\<open>create\<close> is called, and \<^verbatim>\<open>model\<close> is a getter only.
\<close>

definition lifeCycles :: "string list" where
  "lifeCycles =
     [''beforeValidate'', ''afterValidate'', ''beforeCreate'', ''afterCreate'',
      ''beforeUpdate'', ''afterUpdate'', ''beforeDestroy'', ''afterDestroy'']"

definition newBuilder_a :: builder where
  "newBuilder_a = \<lparr>objs = (\<lambda>_. emptyObj), fresh = 0, currentModel = Undefined\<rparr>"

definition setUpLifecycleEvents :: "builder \<Rightarrow> error + builder" where
  "setUpLifecycleEvents s =
     each (\<lambda>lc s.
             let (f, s1) = alloc \<lparr>kind = Function (Trampoline lc), props = []\<rparr> s
             in setProp s1 (currentModel s1) lc (Ref f))
       lifeCycles s"

definition create :: "val list \<Rightarrow> builder \<Rightarrow> error + ret \<times> builder" where
  "create args s =
     (let (model, s0) = orEmpty (arg args 0) s;
          s1 = s0\<lparr>currentModel := model\<rparr> in
      andThen (getProp s1 (currentModel s1) ''attributes'') (\<lambda>attributes.
      andThen (if \<not> truthy attributes
               then (let (a, s2) = alloc emptyObj s1
                     in setProp s2 (currentModel s2) ''attributes'' (Ref a))
               else Inr s1) (\<lambda>s3.
      andThen (setUpLifecycleEvents s3) (\<lambda>s4. Inr (This, s4)))))"

definition model_a :: "val list \<Rightarrow> builder \<Rightarrow> error + ret \<times> builder" where
  "model_a args s = Inr (Returned (currentModel s), s)"

definition uuidKey_a :: "builder \<Rightarrow> error + builder" where
  "uuidKey_a s =
     andThen (getProp s (currentModel s) ''attributes'') (\<lambda>attributes.
       let (g, s1) = alloc \<lparr>kind = Function UuidGenerator, props = []\<rparr> s;
           (d, s2) = alloc \<lparr>kind = Plain, props =
                        [(''type'', Str ''string''), (''unique'', Bool True),
                         (''primaryKey'', Bool True), (''defaultsTo'', Ref g)]\<rparr> s1
       in setProp s2 attributes ''id'' (Ref d))"

definition intKey_a :: "val list \<Rightarrow> builder \<Rightarrow> error + builder" where
  "intKey_a args s =
     (let autoIncrement = arg args 0 in
      andThen (getProp s (currentModel s) ''attributes'') (\<lambda>attributes.
        let (d, s1) = alloc \<lparr>kind = Plain, props =
                        [(''type'', Str ''integer''), (''unique'', Bool True),
                         (''primaryKey'', Bool True),
                         (''autoIncrement'',
                            if autoIncrement = Undefined then Bool True else autoIncrement)]\<rparr> s
        in setProp s1 attributes ''id'' (Ref d)))"

definition mergeEntry_a :: "lodash \<Rightarrow> val \<Rightarrow> string \<Rightarrow> builder \<Rightarrow> error + builder" where
  "mergeEntry_a L attributes attributeName s =
     andThen (getProp s attributes attributeName) (\<lambda>attribute.
     andThen (getProp s (currentModel s) ''attributes'') (\<lambda>stored.
     andThen (getProp s stored attributeName) (\<lambda>existing.
       let (currentAttribute, s1) = orEmpty existing s in
       andThen (if \<not> isFunction s1 attribute
                then andThen (extend L currentAttribute attribute s1)
                       (\<lambda>s2. Inr (currentAttribute, s2))
                else Inr (attribute, s1)) (\<lambda>(currentAttribute, s2).
       andThen (getProp s2 (currentModel s2) ''attributes'') (\<lambda>stored'.
         setProp s2 stored' attributeName currentAttribute)))))"

definition setProperty_a :: "val \<Rightarrow> val \<Rightarrow> val \<Rightarrow> builder \<Rightarrow> error + builder" where
  "setProperty_a attributeName propertyName v s =
     andThen (getProp s (currentModel s) ''attributes'') (\<lambda>stored.
     andThen (toKey attributeName) (\<lambda>name.
     andThen (getProp s stored name) (\<lambda>existing.
       let (currentAttribute, s1) = orEmpty existing s in
       andThen (toKey propertyName) (\<lambda>key.
       andThen (setProp s1 currentAttribute key v) (\<lambda>s2.
       andThen (getProp s2 (currentModel s2) ''attributes'') (\<lambda>stored'.
         setProp s2 stored' name currentAttribute))))))"

definition mergeShared_a :: "lodash \<Rightarrow> val \<Rightarrow> val \<Rightarrow> builder \<Rightarrow> error + builder" where
  "mergeShared_a L sharedProperties attributeName s =
     andThen (getProp s (currentModel s) ''attributes'') (\<lambda>stored.
     andThen (toKey attributeName) (\<lambda>name.
     andThen (getProp s stored name) (\<lambda>existing.
       let (currentAttribute, s1) = orEmpty existing s in
       andThen (extend L currentAttribute sharedProperties s1) (\<lambda>s2.
       andThen (getProp s2 (currentModel s2) ''attributes'') (\<lambda>stored'.
         setProp s2 stored' name currentAttribute)))))"

text \<open>
  In this draft the block for three arguments does not return: control continues into
  the code of the third overload, with the attribute name as the list of names and the
  property name as the shared properties.
\<close>

definition attr_a :: "lodash \<Rightarrow> val list \<Rightarrow> builder \<Rightarrow> error + builder" where
  "attr_a L args s =
     (let attributes = arg args 0; sharedProperties = arg args 1; v = arg args 2 in
      if \<not> isArray attributes \<and> isObject attributes then
        andThen (eachKeys s attributes) (\<lambda>names. each (mergeEntry_a L attributes) names s)
      else
        andThen (if length args = 3 then setProperty_a attributes sharedProperties v s
                 else Inr s) (\<lambda>s1.
          each (mergeShared_a L sharedProperties)
            (case attributes of Arr es \<Rightarrow> es | _ \<Rightarrow> [attributes]) s1))"

definition require_a :: "lodash \<Rightarrow> val list \<Rightarrow> builder \<Rightarrow> error + builder" where
  "require_a L args s =
     andThen
       (if length args = 0 then
          andThen (getProp s (currentModel s) ''attributes'') (\<lambda>stored.
            Inr (Arr (map (\<lambda>p. Str (fst p)) (ownProps L s stored))))
        else if isArray (arg args 0) then Inr (arg args 0)
        else Inr (Arr args)) (\<lambda>list.
       let (r, s1) = alloc \<lparr>kind = Plain, props = [(''required'', Bool True)]\<rparr> s
       in attr_a L [list, Ref r] s1)"

definition export_a :: "val list \<Rightarrow> builder \<Rightarrow> error + builder" where
  "export_a args s = setProp s (arg args 0) ''exports'' (currentModel s)"

section \<open>Reading the model\<close>

text \<open>
  What an observer holding the builder finds: the attribute store of the current
  model, the value stored for an attribute name, and the properties of its descriptor.
\<close>

definition attributeStore :: "builder \<Rightarrow> val" where
  "attributeStore s =
     (case currentModel s of Ref m \<Rightarrow> lookup (props (objs s m)) ''attributes'' | _ \<Rightarrow> Undefined)"

definition attribute :: "builder \<Rightarrow> string \<Rightarrow> val" where
  "attribute s name =
     (case attributeStore s of Ref a \<Rightarrow> lookup (props (objs s a)) name | _ \<Rightarrow> Undefined)"

definition descriptor :: "builder \<Rightarrow> string \<Rightarrow> (string \<times> val) list" where
  "descriptor s name = (case attribute s name of Ref d \<Rightarrow> props (objs s d) | _ \<Rightarrow> [])"

text \<open>The properties of a target after every property of a source has been assigned to it.\<close>

definition assignAll :: "(string \<times> val) list \<Rightarrow> (string \<times> val) list \<Rightarrow> (string \<times> val) list" where
  "assignAll source target = fold (\<lambda>p. put (fst p) (snd p)) source target"

text \<open>
  The builder holds the model object \<open>m\<close> whose \<^verbatim>\<open>attributes\<close> property is the object
  \<open>at\<close>, both allocated.
\<close>

definition installed :: "builder \<Rightarrow> addr \<Rightarrow> addr \<Rightarrow> bool" where
  "installed s m at =
     (currentModel s = Ref m \<and> lookup (props (objs s m)) ''attributes'' = Ref at
      \<and> m \<noteq> at \<and> m < fresh s \<and> at < fresh s)"

text \<open>
  The value \<open>n\<close> is a string that names an attribute nothing is stored for yet (the
  stored value is falsy) or whose stored descriptor is an object other than the model and
  the attribute store themselves.
\<close>

definition mergeable :: "builder \<Rightarrow> addr \<Rightarrow> addr \<Rightarrow> val \<Rightarrow> bool" where
  "mergeable s m at n =
     (case n of
        Str k \<Rightarrow>
          (case lookup (props (objs s at)) k of
             Ref c \<Rightarrow> c \<noteq> m \<and> c \<noteq> at
           | v \<Rightarrow> \<not> truthy v)
      | _ \<Rightarrow> False)"


text \<open>An object literal that the caller evaluates, as in \<^verbatim>\<open>attr({name: {required: true}})\<close>.\<close>

definition literal :: "(string \<times> val) list \<Rightarrow> builder \<Rightarrow> val \<times> builder" where
  "literal ps s = (let (a, s') = alloc \<lparr>kind = Plain, props = ps\<rparr> s in (Ref a, s'))"

text \<open>
  The framework calls the value stored on the model under a lifecycle name with
  \<^verbatim>\<open>(instance, cb)\<close>. When that value is one of the functions installed by the wiring, the
  call is the invocation that \<open>trampoline\<close> describes; a call of anything else is not
  represented.
\<close>

definition callLifecycle :: "eventManager \<Rightarrow> builder \<Rightarrow> val \<Rightarrow> invocation option" where
  "callLifecycle em s f =
     (case f of
        Ref a \<Rightarrow>
          (case kind (objs s a) of
             Function (Trampoline lc) \<Rightarrow> Some (trampoline em lc)
           | _ \<Rightarrow> None)
      | _ \<Rightarrow> None)"

section \<open>Chains of builder calls\<close>

text \<open>
  The builder is used through chains such as
  \<^verbatim>\<open>modelBuilder.model(m).attr(...).require().uuidKey().export(module)\<close>. A chain stops at
  the first call that raises. Setting the model up is \<^verbatim>\<open>create(m)\<close> in
  \<^verbatim>\<open>sails-model-builder.js\<close> and \<^verbatim>\<open>model(m)\<close> in the second draft.
\<close>

datatype call =
    UuidKey
  | IntKey "val list"
  | Require "val list"
  | Attr "val list"
  | Export "val list"
  | SetModel val

fun call_a :: "lodash \<Rightarrow> call \<Rightarrow> builder \<Rightarrow> error + builder" where
  "call_a L UuidKey s = uuidKey_a s"
| "call_a L (IntKey args) s = intKey_a args s"
| "call_a L (Require args) s = require_a L args s"
| "call_a L (Attr args) s = attr_a L args s"
| "call_a L (Export args) s = export_a args s"
| "call_a L (SetModel m) s = andThen (create [m] s) (\<lambda>(r, s'). Inr s')"

fun call_b :: "lodash \<Rightarrow> call \<Rightarrow> builder \<Rightarrow> error + builder" where
  "call_b L UuidKey s = uuidKey_b s"
| "call_b L (IntKey args) s = intKey_b args s"
| "call_b L (Require args) s = require_b L args s"
| "call_b L (Attr args) s = attr_b L args s"
| "call_b L (Export args) s = export_b args s"
| "call_b L (SetModel m) s = andThen (model_b [m] s) (\<lambda>(r, s'). Inr s')"

definition chain_a :: "lodash \<Rightarrow> call list \<Rightarrow> builder \<Rightarrow> error + builder" where
  "chain_a L cs s = each (call_a L) cs s"

definition chain_b :: "lodash \<Rightarrow> call list \<Rightarrow> builder \<Rightarrow> error + builder" where
  "chain_b L cs s = each (call_b L) cs s"

text \<open>
  The calls that both drafts are meant to treat alike: every call but \<^verbatim>\<open>attr\<close> with three
  arguments in its name-and-property overload, and setting up a descriptor that is not
  truthy.
\<close>

fun portable :: "call \<Rightarrow> bool" where
  "portable (Attr args) = (length args \<noteq> 3 \<or> (\<not> isArray (arg args 0) \<and> isObject (arg args 0)))"
| "portable (SetModel m) = truthy m"
| "portable c = True"

section \<open>Properties of the lifecycle dispatcher\<close>

lemma perform_skip_work:
  "fold perform as s = fold perform (filter (\<lambda>a. a \<noteq> Work) as) s"
  by (induction as arbitrary: s) auto

lemma orphan_fold_perform:
  "orphanCallback (fold perform as s) = (orphanCallback s \<and> \<not> list_ex (\<lambda>a. a \<noteq> Work) as)"
proof (induction as arbitrary: s)
  case Nil
  then show ?case by simp
next
  case (Cons a as)
  then show ?case
    by (cases a) (auto simp: adopt_def wrappedCb_def cb_def)
qed

lemma ran_fold_perform:
  "filter (\<lambda>e. \<not> isCalled e) (trace (fold perform as s)) = filter (\<lambda>e. \<not> isCalled e) (trace s)"
proof (induction as arbitrary: s)
  case Nil
  then show ?case by simp
next
  case (Cons a as)
  then show ?case
    by (cases a) (auto simp: adopt_def wrappedCb_def cb_def)
qed

lemma orphan_runHandler:
  "orphanCallback (runHandler h s) = (orphanCallback s \<and> \<not> adopts h)"
  by (simp add: runHandler_def orphan_fold_perform adopts_def)

lemma ran_runHandler:
  "filter (\<lambda>e. \<not> isCalled e) (trace (runHandler h s)) = filter (\<lambda>e. \<not> isCalled e) (trace s) @ [Ran h]"
  by (simp add: runHandler_def ran_fold_perform)

lemma orphan_handlers:
  "orphanCallback (fold runHandler hs s) = (orphanCallback s \<and> \<not> list_ex adopts hs)"
  by (induction hs arbitrary: s) (auto simp: orphan_runHandler)

lemma ran_handlers:
  "filter (\<lambda>e. \<not> isCalled e) (trace (fold runHandler hs s)) = filter (\<lambda>e. \<not> isCalled e) (trace s) @ map Ran hs"
  by (induction hs arbitrary: s) (auto simp: ran_runHandler)

text \<open>
  Claim C1. When a lifecycle has at least one subscribed handler, the lifecycle function
  runs every subscribed handler, in order, and then calls the framework's continuation
  (with no arguments) exactly when no handler adopted it during the pass, whether
  through \<^verbatim>\<open>adopt()\<close> or through the wrapped continuation. A single handler that does nothing
  to the continuation leaves exactly one call of it, made after the handler has run. A
  single handler that calls \<^verbatim>\<open>adopt()\<close> and returns leaves no call at the end of the pass, and
  the continuation is called exactly once when the handler later invokes it.
\<close>

theorem trampoline_with_subscribers:
  assumes "em lc \<noteq> []"
  shows "trace (trampoline em lc) =
           trace (trigger em lc start) @ (if list_ex adopts (em lc) then [] else [Called []])
       \<and> filter (\<lambda>e. \<not> isCalled e) (trace (trampoline em lc)) = map Ran (em lc)
       \<and> (em lc = [h] \<and> \<not> adopts h \<longrightarrow> trace (trampoline em lc) = [Ran h, Called []])
       \<and> (em lc = [h] \<and> filter (\<lambda>a. a \<noteq> Work) (now h) = [Assume]
            \<and> filter (\<lambda>a. a \<noteq> Work) (later h) = [Continue args] \<longrightarrow>
            trace (trampoline em lc) = [Ran h]
            \<and> trace (afterwards [h] (trampoline em lc)) = [Ran h, Called [arg args 0]])"
proof -
  let ?s = "trigger em lc start"
  have orphan: "orphanCallback ?s = (\<not> list_ex adopts (em lc))"
    by (simp add: trigger_def orphan_handlers start_def)
  have tr: "trampoline em lc = (if list_ex adopts (em lc) then ?s else cb [] ?s)"
    using assms orphan by (simp add: trampoline_def any_def Let_def)
  have first: "trace (trampoline em lc) =
      trace ?s @ (if list_ex adopts (em lc) then [] else [Called []])"
    by (simp add: tr cb_def)
  have ran: "filter (\<lambda>e. \<not> isCalled e) (trace ?s) = map Ran (em lc)"
    by (simp add: trigger_def ran_handlers start_def)
  have second: "filter (\<lambda>e. \<not> isCalled e) (trace (trampoline em lc)) = map Ran (em lc)"
    by (simp add: first ran)
  have third: "trace (trampoline em lc) = [Ran h, Called []]"
    if "em lc = [h]" "\<not> adopts h"
  proof -
    have "filter (\<lambda>a. a \<noteq> Work) (now h) = []"
      using that(2) by (simp add: adopts_def list_ex_iff filter_empty_conv)
    then have "fold perform (now h) s = s" for s
      using perform_skip_work [of "now h" s] by simp
    then show ?thesis
      using that by (simp add: first trigger_def runHandler_def start_def)
  qed
  have fourth: "trace (trampoline em lc) = [Ran h]
      \<and> trace (afterwards [h] (trampoline em lc)) = [Ran h, Called [arg args 0]]"
    if "em lc = [h]" "filter (\<lambda>a. a \<noteq> Work) (now h) = [Assume]"
       "filter (\<lambda>a. a \<noteq> Work) (later h) = [Continue args]"
  proof -
    have n: "fold perform (now h) s = adopt s" for s
      using perform_skip_work [of "now h" s] that(2) by simp
    have l: "fold perform (later h) s = wrappedCb args s" for s
      using perform_skip_work [of "later h" s] that(3) by simp
    have "adopts h"
      using that(2) by (auto simp: adopts_def list_ex_iff filter_eq_Cons_iff)
    then have t: "trampoline em lc = adopt (start\<lparr>trace := [Ran h]\<rparr>)"
      using that(1) by (simp add: tr trigger_def runHandler_def n start_def)
    show ?thesis
      by (simp add: t afterwards_def l wrappedCb_def adopt_def cb_def)
  qed
  from first second third fourth show ?thesis by blast
qed

theorem trampoline_with_subscribers_witness:
  "((\<lambda>_. [])(''beforeCreate'' := [\<lparr>now = [Assume], later = [Continue [Null]]\<rparr>])) ''beforeCreate'' \<noteq> []
   \<and> trace (trampoline ((\<lambda>_. [])(''beforeCreate'' := [\<lparr>now = [Assume], later = [Continue [Null]]\<rparr>])) ''beforeCreate'')
       = [Ran \<lparr>now = [Assume], later = [Continue [Null]]\<rparr>]
   \<and> trace (afterwards [\<lparr>now = [Assume], later = [Continue [Null]]\<rparr>]
        (trampoline ((\<lambda>_. [])(''beforeCreate'' := [\<lparr>now = [Assume], later = [Continue [Null]]\<rparr>])) ''beforeCreate''))
       = [Ran \<lparr>now = [Assume], later = [Continue [Null]]\<rparr>, Called [Null]]
   \<and> ((\<lambda>_. [])(''afterCreate'' := [\<lparr>now = [Work], later = []\<rparr>])) ''afterCreate'' \<noteq> []
   \<and> \<not> adopts \<lparr>now = [Work], later = []\<rparr>
   \<and> trace (trampoline ((\<lambda>_. [])(''afterCreate'' := [\<lparr>now = [Work], later = []\<rparr>])) ''afterCreate'')
       = [Ran \<lparr>now = [Work], later = []\<rparr>, Called []]"
proof -
  let ?h = "\<lparr>now = [Assume], later = [Continue [Null]]\<rparr>"
  let ?em = "(\<lambda>_. [])(''beforeCreate'' := [?h])"
  let ?idle = "\<lparr>now = [Work], later = []\<rparr>"
  let ?em' = "(\<lambda>_. [])(''afterCreate'' := [?idle])"
  have a: "?em ''beforeCreate'' \<noteq> []" by simp
  have b: "?em ''beforeCreate'' = [?h] \<and> filter (\<lambda>a. a \<noteq> Work) (now ?h) = [Assume]
      \<and> filter (\<lambda>a. a \<noteq> Work) (later ?h) = [Continue [Null]]" by simp
  from trampoline_with_subscribers [of ?em "''beforeCreate''" ?h "[Null]", OF a] b
  have first: "trace (trampoline ?em ''beforeCreate'') = [Ran ?h]
      \<and> trace (afterwards [?h] (trampoline ?em ''beforeCreate'')) = [Ran ?h, Called [arg [Null] 0]]"
    by blast
  have c: "?em' ''afterCreate'' \<noteq> []" by simp
  have d: "?em' ''afterCreate'' = [?idle] \<and> \<not> adopts ?idle" by (simp add: adopts_def)
  from trampoline_with_subscribers [of ?em' "''afterCreate''" ?idle "[]", OF c] d
  have second: "trace (trampoline ?em' ''afterCreate'') = [Ran ?idle, Called []]"
    by blast
  from a first c d second show ?thesis by (simp add: arg_def)
qed

text \<open>
  Claim C2. When a lifecycle has no subscribed handler, the lifecycle function calls the
  continuation exactly once, with no arguments, and nothing else happens: no handler
  runs.
\<close>

theorem trampoline_without_subscribers:
  assumes "em lc = []"
  shows "trampoline em lc = cb [] start \<and> trace (trampoline em lc) = [Called []]"
  using assms by (simp add: trampoline_def any_def cb_def start_def)

theorem trampoline_without_subscribers_witness:
  "(\<lambda>_. []) ''afterDestroy'' = ([] :: handler list)
   \<and> trace (trampoline (\<lambda>_. []) ''afterDestroy'') = [Called []]"
  using trampoline_without_subscribers [of "\<lambda>_. []" "''afterDestroy''"]
  by (simp add: cb_def start_def)

text \<open>
  Claim C3. With one subscribed handler that calls the wrapped continuation during the
  pass without calling \<^verbatim>\<open>adopt()\<close> first, the continuation is called exactly once: the wrapped
  continuation adopts before it forwards, so the call at the end of the pass is skipped.
\<close>

theorem direct_continuation_runs_once:
  assumes "em lc = [h]" and "filter (\<lambda>a. a \<noteq> Work) (now h) = [Continue args]"
  shows "trace (trampoline em lc) = [Ran h, Called [arg args 0]]
       \<and> calls (trampoline em lc) = [Called [arg args 0]]"
proof -
  have n: "fold perform (now h) s = wrappedCb args s" for s
    using perform_skip_work [of "now h" s] assms(2) by simp
  have "trace (trampoline em lc) = [Ran h, Called [arg args 0]]"
    using assms(1)
    by (simp add: trampoline_def any_def trigger_def runHandler_def n wrappedCb_def
        adopt_def cb_def start_def Let_def)
  then show ?thesis by (simp add: calls_def)
qed

theorem direct_continuation_runs_once_witness:
  "((\<lambda>_. [])(''beforeUpdate'' := [\<lparr>now = [Work, Continue []], later = []\<rparr>])) ''beforeUpdate''
      = [\<lparr>now = [Work, Continue []], later = []\<rparr>]
   \<and> filter (\<lambda>a. a \<noteq> Work) (now \<lparr>now = [Work, Continue []], later = []\<rparr>) = [Continue []]
   \<and> calls (trampoline ((\<lambda>_. [])(''beforeUpdate'' := [\<lparr>now = [Work, Continue []], later = []\<rparr>])) ''beforeUpdate'')
      = [Called [Undefined]]"
  using direct_continuation_runs_once
    [of "(\<lambda>_. [])(''beforeUpdate'' := [\<lparr>now = [Work, Continue []], later = []\<rparr>])"
        "''beforeUpdate''" "\<lparr>now = [Work, Continue []], later = []\<rparr>" "[]"]
  by (simp add: arg_def)

text \<open>
  Claim C4, as stated, asks that the continuation receive exactly the arguments of the
  wrapped call, for every arity. The wrapper forwards one argument only: a call with two
  arguments reaches the continuation with the first one, and a call with none reaches it
  with the single argument \<^verbatim>\<open>undefined\<close>.
\<close>

theorem wrappedCb_forwards_all_arguments_counterexample:
  "trace (wrappedCb [Num 1, Num 2] start) = [Called [Num 1]]
   \<and> trace (wrappedCb [Num 1, Num 2] start) \<noteq> trace start @ [Called [Num 1, Num 2]]
   \<and> trace (wrappedCb [] start) = [Called [Undefined]]
   \<and> trace (wrappedCb [] start) \<noteq> trace start @ [Called []]"
  by (simp add: wrappedCb_def adopt_def cb_def start_def arg_def)

text \<open>
  Claim C4, amended. Invoking the wrapped continuation first marks the invocation adopted
  and then calls the original continuation with exactly one argument, the first argument
  of the wrapped call (\<^verbatim>\<open>undefined\<close> when there is none); a call with one argument is
  forwarded unchanged.
\<close>

theorem wrappedCb_forwards_first_argument:
  "wrappedCb args s = cb [arg args 0] (adopt s)
   \<and> orphanCallback (wrappedCb args s) = False
   \<and> trace (wrappedCb args s) = trace s @ [Called [arg args 0]]
   \<and> trace (wrappedCb [m] s) = trace s @ [Called [m]]"
  by (simp add: wrappedCb_def adopt_def cb_def arg_def)


section \<open>Facts about the store\<close>

lemma andThen_Inr [simp]: "andThen (Inr x) f = f x"
  by (simp add: andThen_def)

lemma andThen_Inl [simp]: "andThen (Inl e) f = Inl e"
  by (simp add: andThen_def)

lemma lookup_put: "lookup (put k v ps) k' = (if k' = k then v else lookup ps k')"
  by (induction ps) (auto simp: lookup_def)

lemma lookup_Nil [simp]: "lookup [] k = Undefined"
  by (simp add: lookup_def)

lemma lookup_Cons [simp]: "lookup ((k, v) # ps) k' = (if k' = k then v else lookup ps k')"
  by (simp add: lookup_def)

lemma andThen_done: "andThen r (each f []) = r"
  by (cases r) simp_all

lemma each_single: "each f [x] = f x"
  by (rule ext) (simp add: andThen_done)

lemma assign_each:
  "each (\<lambda>p s'. setProp s' (Ref c) (fst p) (snd p)) ps s =
     Inr (s\<lparr>objs := (objs s)(c := (objs s c)\<lparr>props := assignAll ps (props (objs s c))\<rparr>)\<rparr>)"
proof (induction ps arbitrary: s)
  case Nil
  then show ?case by (simp add: assignAll_def)
next
  case (Cons p ps)
  let ?f = "\<lambda>p s'. setProp s' (Ref c) (fst p) (snd p)"
  let ?s1 = "s\<lparr>objs := (objs s)(c := (objs s c)\<lparr>props := put (fst p) (snd p) (props (objs s c))\<rparr>)\<rparr>"
  have "each ?f (p # ps) s = each ?f ps ?s1"
    by (simp del: setProp.simps add: setProp.simps(1) [of s c])
  also have "\<dots> = Inr (?s1\<lparr>objs := (objs ?s1)(c := (objs ?s1 c)\<lparr>props := assignAll ps (props (objs ?s1 c))\<rparr>)\<rparr>)"
    by (rule Cons.IH)
  also have "\<dots> = Inr (s\<lparr>objs := (objs s)(c := (objs s c)\<lparr>props := assignAll (p # ps) (props (objs s c))\<rparr>)\<rparr>)"
    by (simp add: assignAll_def)
  finally show ?case .
qed

lemma extend_Ref:
  "extend L (Ref c) source s =
     Inr (s\<lparr>objs := (objs s)(c := (objs s c)\<lparr>props := assignAll (ownProps L s source) (props (objs s c))\<rparr>)\<rparr>)"
  unfolding extend_def by (rule assign_each)

lemma read_attribute:
  "installed t m at \<Longrightarrow> attribute t name = lookup (props (objs t at)) name"
  by (simp add: attribute_def attributeStore_def installed_def)

lemma mergeable_cases:
  assumes "mergeable s m at (Str k)"
  obtains (present) c where "lookup (props (objs s at)) k = Ref c" "c \<noteq> m" "c \<noteq> at"
  | (absent) "\<not> truthy (lookup (props (objs s at)) k)" "\<forall>c. lookup (props (objs s at)) k \<noteq> Ref c"
  using assms by (cases "lookup (props (objs s at)) k") (auto simp: mergeable_def)




text \<open>The definitions that a run of the builder on a concrete store unfolds.\<close>

lemmas run = literal_def alloc_def newBuilder_b_def newBuilder_a_def attr_b_def attr_a_def arg_def
  eachKeys_def mergeEntry_b_def mergeEntry_a_def orEmpty_def isFunction_def extend_def ownProps_def
  descriptor_def attribute_def attributeStore_def emptyObj_def create_def setUpLifecycleEvents_def
  lifeCycles_def setProperty_a_def setProperty_b_def mergeShared_a_def mergeShared_b_def

section \<open>The two drafts on a common state\<close>

lemma same_wiring: "setUpLifecycleEvents s = setupLifecycleEvents s"
  by (simp add: setUpLifecycleEvents_def setupLifecycleEvents_def lifeCycles_def lifecycles_def)

lemma same_mergeShared: "mergeShared_a = mergeShared_b"
  by (intro ext) (simp add: mergeShared_a_def mergeShared_b_def)

lemma same_mergeEntry: "mergeEntry_a = mergeEntry_b"
  by (intro ext) (simp add: mergeEntry_a_def mergeEntry_b_def)

lemma same_setProperty: "setProperty_a = setProperty_b"
  by (intro ext) (simp add: setProperty_a_def setProperty_b_def)

lemma same_attr:
  "length args \<noteq> 3 \<or> (\<not> isArray (arg args 0) \<and> isObject (arg args 0)) \<Longrightarrow>
     attr_a L args s = attr_b L args s"
  by (auto simp: attr_a_def attr_b_def Let_def same_mergeShared same_mergeEntry)

lemma same_require: "require_a L args s = require_b L args s"
proof -
  have "attr_a L [x, y] t = attr_b L [x, y] t" for x y t
    by (rule same_attr) simp
  then show ?thesis
    by (simp add: require_a_def require_b_def)
qed

lemma same_create: "truthy m \<Longrightarrow> create [m] (s\<lparr>currentModel := x\<rparr>) = model_b [m] (s\<lparr>currentModel := y\<rparr>)"
  by (simp add: create_def model_b_def orEmpty_def same_wiring arg_def)

lemma same_call: "portable c \<Longrightarrow> call_a L c s = call_b L c s"
proof (cases c)
  case (SetModel m)
  assume "portable c"
  with SetModel have "truthy m" by simp
  from same_create [OF this, where s = s and x = "currentModel s" and y = "currentModel s"] SetModel
  show ?thesis by simp
next
  case (Attr args)
  assume "portable c"
  with Attr show ?thesis by (simp add: same_attr)
qed (simp_all add: same_require uuidKey_a_def uuidKey_b_def intKey_a_def intKey_b_def
      export_a_def export_b_def)

lemma same_each: "list_all portable cs \<Longrightarrow> each (call_a L) cs s = each (call_b L) cs s"
proof (induction cs arbitrary: s)
  case Nil
  show ?case by simp
next
  case (Cons c cs)
  then have c: "call_a L c s = call_b L c s" and cs: "list_all portable cs"
    by (simp_all add: same_call)
  show ?case
  proof (cases "call_b L c s")
    case (Inl e)
    with c show ?thesis by simp
  next
    case (Inr s')
    with c Cons.IH [OF cs, of s'] show ?thesis by simp
  qed
qed

text \<open>
  Claim C5, as stated, asks that the two drafts behave alike on every sequence of builder
  operations. They differ from the first operation on: the builder of
  \<^verbatim>\<open>sails-model-builder.js\<close> has no model until \<^verbatim>\<open>create\<close> is called, so the chain
  \<^verbatim>\<open>uuidKey()\<close> on a new builder raises a \<^verbatim>\<open>TypeError\<close>, while the builder of the second draft
  starts with the model \<^verbatim>\<open>{attributes: {}}\<close> and stores the key.
\<close>

theorem drafts_differ_on_a_new_builder_counterexample:
  "chain_a skipsStrings [UuidKey] newBuilder_a = Inl TypeError
   \<and> andThen (chain_b skipsStrings [UuidKey] newBuilder_b) (\<lambda>s'. Inr (descriptor s' ''id''))
       = Inr [(''type'', Str ''string''), (''unique'', Bool True),
              (''primaryKey'', Bool True), (''defaultsTo'', Ref 2)]"
  by (simp add: run chain_a_def chain_b_def uuidKey_a_def uuidKey_b_def)

text \<open>
  Claim C5, amended. On the same store, every chain of calls of \<^verbatim>\<open>uuidKey\<close>, \<^verbatim>\<open>intKey\<close>,
  \<^verbatim>\<open>require\<close>, \<^verbatim>\<open>export\<close>, model set-up with a truthy descriptor, and \<^verbatim>\<open>attr\<close> in its mapping
  overload or with a number of arguments other than three gives the same result in both
  drafts: the same exception, or the same store and model. When the chain starts by
  setting the model up, this holds although \<^verbatim>\<open>sails-model-builder.js\<close> starts without a
  model. Reading the model with \<^verbatim>\<open>model()\<close> gives the same value, and the lifecycle
  functions that the set-up installs are the same in both drafts.
\<close>

theorem drafts_agree_on_a_common_state:
  assumes "list_all portable cs"
  shows "chain_a L cs s = chain_b L cs s
     \<and> (truthy m \<longrightarrow>
          chain_a L (SetModel m # cs) (s\<lparr>currentModel := Undefined\<rparr>)
            = chain_b L (SetModel m # cs) s)
     \<and> model_a [] s = model_b [] s
     \<and> setUpLifecycleEvents s = setupLifecycleEvents s"
proof -
  have first: "chain_a L cs s = chain_b L cs s"
    using assms by (simp add: chain_a_def chain_b_def same_each)
  have second: "chain_a L (SetModel m # cs) (s\<lparr>currentModel := Undefined\<rparr>)
      = chain_b L (SetModel m # cs) s" if "truthy m"
  proof -
    from same_create [OF that, where s = s and x = Undefined and y = "currentModel s"]
    have "call_a L (SetModel m) (s\<lparr>currentModel := Undefined\<rparr>) = call_b L (SetModel m) s"
      by simp
    then show ?thesis
      using assms
      by (cases "call_b L (SetModel m) s") (simp_all add: chain_a_def chain_b_def same_each)
  qed
  have third: "model_a [] s = model_b [] s"
    by (simp add: model_a_def model_b_def)
  from first second third same_wiring [of s] show ?thesis by blast
qed

theorem drafts_agree_on_a_common_state_witness:
  "list_all portable [Attr [Arr [Str ''email''], Ref 0], Require [], UuidKey]
   \<and> truthy (Ref 1)
   \<and> chain_a skipsStrings
        [SetModel (Ref 1), Attr [Arr [Str ''email''], Ref 0], Require [], UuidKey]
        ((snd (literal [(''tableName'', Str ''user'')]
            (snd (literal [(''type'', Str ''string'')] newBuilder_a))))\<lparr>currentModel := Undefined\<rparr>)
     = chain_b skipsStrings
        [SetModel (Ref 1), Attr [Arr [Str ''email''], Ref 0], Require [], UuidKey]
        (snd (literal [(''tableName'', Str ''user'')]
            (snd (literal [(''type'', Str ''string'')] newBuilder_a))))
   \<and> andThen (chain_b skipsStrings
        [SetModel (Ref 1), Attr [Arr [Str ''email''], Ref 0], Require [], UuidKey]
        (snd (literal [(''tableName'', Str ''user'')]
            (snd (literal [(''type'', Str ''string'')] newBuilder_a)))))
       (\<lambda>s'. Inr (currentModel s', descriptor s' ''email''))
     = Inr (Ref 1, [(''type'', Str ''string''), (''required'', Bool True)])"
proof -
  let ?s = "snd (literal [(''tableName'', Str ''user'')]
            (snd (literal [(''type'', Str ''string'')] newBuilder_a)))"
  let ?cs = "[Attr [Arr [Str ''email''], Ref 0], Require [], UuidKey]"
  have p: "list_all portable ?cs" and t: "truthy (Ref 1)"
    by (simp_all add: arg_def)
  from drafts_agree_on_a_common_state [OF p, of skipsStrings ?s "Ref 1"] t
  have e: "chain_a skipsStrings (SetModel (Ref 1) # ?cs) (?s\<lparr>currentModel := Undefined\<rparr>)
      = chain_b skipsStrings (SetModel (Ref 1) # ?cs) ?s"
    by blast
  have r: "andThen (chain_b skipsStrings (SetModel (Ref 1) # ?cs) ?s)
       (\<lambda>s'. Inr (currentModel s', descriptor s' ''email''))
     = Inr (Ref 1, [(''type'', Str ''string''), (''required'', Bool True)])"
    by (simp add: run chain_b_def model_b_def setupLifecycleEvents_def lifecycles_def lookup_put
        require_b_def uuidKey_b_def skipsStrings_def)
  from p t e r show ?thesis by blast
qed

section \<open>The key helpers\<close>



section \<open>The model setter\<close>

lemma wiring:
  assumes "currentModel s = Ref m" and "m < fresh s"
  shows "\<exists>s'. setupLifecycleEvents s = Inr s' \<and> currentModel s' = Ref m
     \<and> fresh s' = fresh s + 8
     \<and> (\<forall>lc \<in> set lifecycles.
            callLifecycle em s' (lookup (props (objs s' m)) lc) = Some (trampoline em lc)
          \<and> (\<exists>f. lookup (props (objs s' m)) lc = Ref f
                \<and> objs s' f = \<lparr>kind = Function (Trampoline lc), props = []\<rparr>))
     \<and> (\<forall>k. k \<notin> set lifecycles \<longrightarrow> lookup (props (objs s' m)) k = lookup (props (objs s m)) k)
     \<and> (\<forall>a. a < fresh s \<and> a \<noteq> m \<longrightarrow> objs s' a = objs s a)"
  using assms
  by (simp add: setupLifecycleEvents_def lifecycles_def alloc_def lookup_put callLifecycle_def)

text \<open>
  Claim C9. Passing a descriptor object to \<^verbatim>\<open>model\<close> (or to \<^verbatim>\<open>create\<close> in
  \<^verbatim>\<open>sails-model-builder.js\<close>) returns the builder and makes that very object the current
  model. Its \<^verbatim>\<open>attributes\<close> is the one it came with if that was truthy, and a new empty
  object otherwise. Each of the eight lifecycle names holds a newly created lifecycle
  function for that name, and the other properties of the descriptor read as before.
\<close>

theorem model_setter_installs_descriptor:
  assumes "m < fresh s"
  shows "\<exists>s'. model_b [Ref m] s = Inr (This, s') \<and> create [Ref m] s = Inr (This, s')
      \<and> currentModel s' = Ref m
      \<and> truthy (attributeStore s')
      \<and> attributeStore s' =
          (if truthy (lookup (props (objs s m)) ''attributes'')
           then lookup (props (objs s m)) ''attributes'' else Ref (fresh s))
      \<and> (truthy (lookup (props (objs s m)) ''attributes'') \<or> objs s' (fresh s) = emptyObj)
      \<and> (\<forall>lc \<in> set lifecycles.
            callLifecycle em s' (lookup (props (objs s' m)) lc) = Some (trampoline em lc)
          \<and> (\<exists>f. lookup (props (objs s' m)) lc = Ref f
                \<and> objs s' f = \<lparr>kind = Function (Trampoline lc), props = []\<rparr>))
      \<and> (\<forall>k. k \<notin> set lifecycles \<and> k \<noteq> ''attributes'' \<longrightarrow>
            lookup (props (objs s' m)) k = lookup (props (objs s m)) k)"
proof -
  let ?given = "lookup (props (objs s m)) ''attributes''"
  define s3 where "s3 =
    (if truthy ?given then s\<lparr>currentModel := Ref m\<rparr>
     else s\<lparr>currentModel := Ref m, fresh := Suc (fresh s),
            objs := (objs s)(fresh s := emptyObj,
                m := (objs s m)\<lparr>props := put ''attributes'' (Ref (fresh s)) (props (objs s m))\<rparr>)\<rparr>)"
  have m3: "currentModel s3 = Ref m" and f3: "m < fresh s3"
    using assms by (simp_all add: s3_def)
  have at3: "lookup (props (objs s3 m)) ''attributes'' = (if truthy ?given then ?given else Ref (fresh s))"
    using assms by (simp add: s3_def lookup_put)
  have new3: "truthy ?given \<or> objs s3 (fresh s) = emptyObj"
    using assms by (simp add: s3_def)
  have keep3: "k \<noteq> ''attributes'' \<Longrightarrow> lookup (props (objs s3 m)) k = lookup (props (objs s m)) k" for k
    using assms by (simp add: s3_def lookup_put)
  have fr3: "fresh s \<le> fresh s3" "truthy ?given \<or> fresh s < fresh s3"
    by (simp_all add: s3_def)
  have mb: "model_b [Ref m] s = andThen (setupLifecycleEvents s3) (\<lambda>s4. Inr (This, s4))"
    using assms by (simp add: model_b_def arg_def alloc_def s3_def Let_def)
  have cr: "create [Ref m] s = andThen (setupLifecycleEvents s3) (\<lambda>s4. Inr (This, s4))"
    using assms by (simp add: create_def orEmpty_def arg_def alloc_def s3_def Let_def same_wiring)
  from wiring [OF m3 f3, of em] obtain s' where w: "setupLifecycleEvents s3 = Inr s'"
    "currentModel s' = Ref m"
    "\<forall>lc \<in> set lifecycles.
        callLifecycle em s' (lookup (props (objs s' m)) lc) = Some (trampoline em lc)
      \<and> (\<exists>f. lookup (props (objs s' m)) lc = Ref f
            \<and> objs s' f = \<lparr>kind = Function (Trampoline lc), props = []\<rparr>)"
    "\<forall>k. k \<notin> set lifecycles \<longrightarrow> lookup (props (objs s' m)) k = lookup (props (objs s3 m)) k"
    "\<forall>a. a < fresh s3 \<and> a \<noteq> m \<longrightarrow> objs s' a = objs s3 a"
    by blast
  have notlc: "''attributes'' \<notin> set lifecycles"
    by (simp add: lifecycles_def)
  have store: "attributeStore s' = (if truthy ?given then ?given else Ref (fresh s))"
    using w(2) w(4) notlc at3 by (simp add: attributeStore_def)
  have new: "truthy ?given \<or> objs s' (fresh s) = emptyObj"
    using new3 fr3(2) w(5) assms by (metis less_irrefl)
  have keep: "\<forall>k. k \<notin> set lifecycles \<and> k \<noteq> ''attributes'' \<longrightarrow>
      lookup (props (objs s' m)) k = lookup (props (objs s m)) k"
    using w(4) keep3 by simp
  have "model_b [Ref m] s = Inr (This, s') \<and> create [Ref m] s = Inr (This, s')"
    by (simp add: mb cr w(1))
  moreover have "truthy (attributeStore s')"
    by (simp add: store)
  ultimately show ?thesis
    using w(2) w(3) store new keep by blast
qed

theorem model_setter_installs_descriptor_witness:
  "2 < fresh (snd (literal [(''tableName'', Str ''user'')] newBuilder_b))
   \<and> (\<exists>s'. model_b [Ref 2] (snd (literal [(''tableName'', Str ''user'')] newBuilder_b)) = Inr (This, s')
        \<and> currentModel s' = Ref 2 \<and> attributeStore s' = Ref 3 \<and> objs s' 3 = emptyObj
        \<and> lookup (props (objs s' 2)) ''tableName'' = Str ''user''
        \<and> callLifecycle (\<lambda>_. []) s' (lookup (props (objs s' 2)) ''beforeCreate'')
            = Some (trampoline (\<lambda>_. []) ''beforeCreate''))"
proof -
  let ?s = "snd (literal [(''tableName'', Str ''user'')] newBuilder_b)"
  have h: "2 < fresh ?s" "fresh ?s = 3" "lookup (props (objs ?s 2)) ''attributes'' = Undefined"
    "lookup (props (objs ?s 2)) ''tableName'' = Str ''user''" "''tableName'' \<notin> set lifecycles"
    "''beforeCreate'' \<in> set lifecycles"
    by (simp_all add: run lifecycles_def)
  from model_setter_installs_descriptor [OF h(1), where em = "\<lambda>_. []"] h(5) h(6)
  have "\<exists>s'. model_b [Ref 2] ?s = Inr (This, s')
        \<and> currentModel s' = Ref 2 \<and> attributeStore s' = Ref 3 \<and> objs s' 3 = emptyObj
        \<and> lookup (props (objs s' 2)) ''tableName'' = Str ''user''
        \<and> callLifecycle (\<lambda>_. []) s' (lookup (props (objs s' 2)) ''beforeCreate'')
            = Some (trampoline (\<lambda>_. []) ''beforeCreate'')"
    by (auto simp: h(2) h(3) h(4))
  with h(1) show ?thesis by simp
qed

section \<open>The mapping overload of attr\<close>









section \<open>The shared-properties overload of attr\<close>



text \<open>
  The shared properties are assigned to the function object itself, which stays a
  function.
\<close>

lemma shared_merge_extends_function:
  assumes "installed s m at" and "lookup (props (objs s at)) name = Ref f"
    and "f \<noteq> m" and "f \<noteq> at"
  shows "\<exists>s'. attr_b L [Str name, shared] s = Inr s'
      \<and> attribute s' name = Ref f
      \<and> kind (objs s' f) = kind (objs s f)
      \<and> props (objs s' f) = assignAll (ownProps L s shared) (props (objs s f))"
  using assms
  by (auto simp: attr_b_def arg_def mergeShared_b_def installed_def orEmpty_def extend_Ref
      lookup_put attribute_def attributeStore_def)



section \<open>The three-argument overload of attr\<close>

text \<open>
  In the second draft the block for three arguments returns, and the call sets the one
  property of the one descriptor and changes no other object but the attribute store.
\<close>

lemma attr_b_sets_one_property:
  assumes "installed s m at" and "mergeable s m at (Str name)"
  shows "\<exists>s'. attr_b L [Str name, Str key, v] s = Inr s'
      \<and> attribute s' name = (if truthy (attribute s name) then attribute s name else Ref (fresh s))
      \<and> descriptor s' name = put key v (descriptor s name)
      \<and> (\<forall>k. k \<noteq> name \<longrightarrow> attribute s' k = attribute s k)
      \<and> (\<forall>a. a < fresh s \<and> a \<noteq> at \<and> Ref a \<noteq> attribute s name \<longrightarrow> objs s' a = objs s a)"
  using assms(2)
proof (cases rule: mergeable_cases)
  case (present c)
  then show ?thesis
    using assms(1)
    by (auto simp: attr_b_def arg_def setProperty_b_def installed_def orEmpty_def lookup_put
        attribute_def attributeStore_def descriptor_def)
next
  case absent
  have "descriptor s name = []"
    using absent(2) assms(1)
    by (cases "lookup (props (objs s at)) name") (auto simp: descriptor_def read_attribute)
  with absent show ?thesis
    using assms(1)
    by (auto simp: attr_b_def arg_def setProperty_b_def installed_def orEmpty_def lookup_put
        attribute_def attributeStore_def descriptor_def alloc_def emptyObj_def)
qed

text \<open>
  In \<^verbatim>\<open>sails-model-builder.js\<close> the same call goes on to merge the property name, as shared
  properties, into the attribute.
\<close>

lemma attr_a_falls_through:
  "attr_a L [Str name, key, v] s =
     andThen (attr_b L [Str name, key, v] s) (mergeShared_b L key (Str name))"
  by (simp add: attr_a_def attr_b_def arg_def same_setProperty same_mergeShared each_single
      Let_def del: each.simps)

text \<open>
  Claim C6. \<^verbatim>\<open>attr('a', 'type', 'integer')\<close> on a model without an attribute \<^verbatim>\<open>a\<close> should
  leave exactly \<^verbatim>\<open>{type: 'integer'}\<close> for \<^verbatim>\<open>a\<close>. The second draft does. In
  \<^verbatim>\<open>sails-model-builder.js\<close>, after \<^verbatim>\<open>create()\<close> and with a library that copies the characters
  of a string source, the call leaves the four characters of the property name under
  their indices as well.
\<close>

theorem three_argument_attr_falls_through:
  "andThen (create [] newBuilder_a) (\<lambda>(r, s).
     andThen (attr_a copiesCharacters [Str ''a'', Str ''type'', Str ''integer''] s) (\<lambda>s'.
       Inr (descriptor s' ''a'')))
     = Inr [(''type'', Str ''integer''), (''0'', Str ''t''), (''1'', Str ''y''),
            (''2'', Str ''p''), (''3'', Str ''e'')]
   \<and> andThen (attr_b copiesCharacters [Str ''a'', Str ''type'', Str ''integer''] newBuilder_b) (\<lambda>s'.
       Inr (descriptor s' ''a''))
     = Inr [(''type'', Str ''integer'')]"
  by (simp add: run copiesCharacters_def indexed_def digit_def upt_rec)

end
